theory Spec2Isabelle
  imports Complex_Main "HOL-Library.Sublist" "HOL-Library.List_Lexorder" "HOL-Library.Char_ord"
begin

text \<open>
  A model of three parts of the studio application: the scene extension that renders
  pose messages (\<open>ThreeDeeRender/renderables/Poses.ts\<close>), the summary of the diagnostics
  panel (\<open>diagnostics/DiagnosticSummary.tsx\<close>) and the manager of a chart inside its
  worker (\<open>Chart/worker/ChartJSManager.ts\<close>). Methods that mutate an object take the
  object and return it updated; functions keep the names they have in the sources.
\<close>

section \<open>JavaScript values used by the pose scene extension\<close>

text \<open>
  A JavaScript number is modelled as a real number or \<open>NaN\<close>. Rounding of IEEE doubles
  and the infinities are not represented: arithmetic is exact on reals.
\<close>

datatype number = Num real | NaN

text \<open>\<open>K[i]\<close> on an array: \<open>None\<close> stands for \<open>undefined\<close> (index out of range).\<close>

definition at_index :: "'a list \<Rightarrow> nat \<Rightarrow> 'a option" where
  "at_index xs i = (if i < length xs then Some (xs ! i) else None)"

text \<open>\<open>Math.sqrt\<close>: \<open>NaN\<close> on \<open>undefined\<close>, on \<open>NaN\<close> and on a negative number.\<close>

definition Math_sqrt :: "number option \<Rightarrow> number" where
  "Math_sqrt v =
     (case v of
        None \<Rightarrow> NaN
      | Some NaN \<Rightarrow> NaN
      | Some (Num r) \<Rightarrow> if r < 0 then NaN else Num (sqrt r))"

section \<open>ROS messages (\<open>../ros\<close>, \<open>../transforms\<close>)\<close>

record Time =
  sec :: int
  nsec :: int

text \<open>
  Modelled from the spec: \<open>TIME_ZERO\<close> (\<open>../ros\<close>) and \<open>makePose\<close> (\<open>../transforms\<close>) are
  not part of the sources. They are the zero-equivalents the spec names: the zero time,
  and the pose with the zero position and the identity-like orientation.
\<close>

definition TIME_ZERO :: Time where
  "TIME_ZERO = \<lparr>sec = 0, nsec = 0\<rparr>"

text \<open>\<open>toNanoSec\<close> of \<open>@foxglove/rostime\<close>: a bigint, so an unbounded integer.\<close>

definition toNanoSec :: "Time \<Rightarrow> int" where
  "toNanoSec t = sec t * 1000000000 + nsec t"

record Header =
  frame_id :: string
  stamp :: Time

text \<open>A vector \<open>{x, y, z}\<close> and a quaternion \<open>{x, y, z, w}\<close>, as tuples in that order.\<close>

type_synonym Vector3 = "number \<times> number \<times> number"
type_synonym Quaternion = "number \<times> number \<times> number \<times> number"

record Pose =
  position :: Vector3
  orientation :: Quaternion

definition makePose :: Pose where
  "makePose = \<lparr>position = (Num 0, Num 0, Num 0), orientation = (Num 0, Num 0, Num 0, Num 1)\<rparr>"

datatype PoseWithCovariance =
  PoseWithCovariance (pwc_pose: Pose) (covariance: "number list")

text \<open>
  The union \<open>PoseStamped | PoseWithCovarianceStamped\<close>. The source tells the two apart
  with \<open>"covariance" in poseMessage.pose\<close>.
\<close>

datatype PoseMessage =
    PoseStamped (header: Header) (ps_pose: Pose)
  | PoseWithCovarianceStamped (header: Header) (pwcs_pose: PoseWithCovariance)

fun covariance_in_pose :: "PoseMessage \<Rightarrow> bool" where
  "covariance_in_pose (PoseStamped h p) = False"
| "covariance_in_pose (PoseWithCovarianceStamped h p) = True"

datatype MarkerType = ARROW | SPHERE
datatype MarkerAction = ADD

text \<open>A colour \<open>{r, g, b, a}\<close>, as a tuple in that order.\<close>

type_synonym ColorRGBA = "number \<times> number \<times> number \<times> number"

text \<open>
  A CSS colour string. \<open>rgbaToCssString\<close> (\<open>../color\<close>) is not part of the sources: the
  string it returns for a colour is kept as that application, next to the strings that
  are written out. No property below depends on which string it is.
\<close>

datatype CssString = rgbaToCssString ColorRGBA | Str string

text \<open>
  A marker, the geometry description handed to a primitive. \<open>stringToRgba\<close> and
  \<open>makeRgba\<close> (\<open>../color\<close>) are not part of the sources: the field
  \<open>marker_color\<close> holds the CSS string the colour is parsed from.
\<close>

record Marker =
  marker_header :: Header
  ns :: string
  marker_id :: nat
  marker_type :: MarkerType
  marker_action :: MarkerAction
  marker_pose :: Pose
  marker_scale :: Vector3
  marker_color :: CssString
  lifetime :: Time
  frame_locked :: bool
  points :: "Vector3 list"
  colors :: "ColorRGBA list"
  marker_text :: string
  mesh_resource :: string
  mesh_use_embedded_materials :: bool

section \<open>Layer settings\<close>

record LayerSettingsPose =
  visible :: bool
  scale :: Vector3
  color :: CssString
  showCovariance :: bool
  covarianceColor :: CssString

text \<open>
  \<open>Partial<LayerSettingsPose>\<close>: every field optional. \<open>None\<close> is a missing property;
  a present property holds a value of the declared type.
\<close>

record PartialLayerSettingsPose =
  visible_opt :: "bool option"
  scale_opt :: "Vector3 option"
  color_opt :: "CssString option"
  showCovariance_opt :: "bool option"
  covarianceColor_opt :: "CssString option"

definition DEFAULT_SCALE :: Vector3 where
  "DEFAULT_SCALE = (Num 1, Num (15 / 100), Num (15 / 100))"

definition DEFAULT_COLOR :: ColorRGBA where
  "DEFAULT_COLOR = (Num (124 / 255), Num (107 / 255), Num 1, Num 1)"

definition DEFAULT_COVARIANCE_COLOR :: ColorRGBA where
  "DEFAULT_COVARIANCE_COLOR = (Num (198 / 255), Num (107 / 255), Num 1, Num (25 / 100))"

definition DEFAULT_COLOR_STR :: CssString where
  "DEFAULT_COLOR_STR = rgbaToCssString DEFAULT_COLOR"

definition DEFAULT_COVARIANCE_COLOR_STR :: CssString where
  "DEFAULT_COVARIANCE_COLOR_STR = rgbaToCssString DEFAULT_COVARIANCE_COLOR"

definition DEFAULT_SETTINGS :: LayerSettingsPose where
  "DEFAULT_SETTINGS =
     \<lparr>visible = True, scale = DEFAULT_SCALE, color = DEFAULT_COLOR_STR,
      showCovariance = True, covarianceColor = DEFAULT_COVARIANCE_COLOR_STR\<rparr>"

text \<open>
  The object spread \<open>{ ...settings, ...userSettings }\<close> of \<open>addPose\<close> and
  \<open>handleSettingsAction\<close>: every property present in the second object replaces
  the one of the first.
\<close>

definition spread :: "LayerSettingsPose \<Rightarrow> PartialLayerSettingsPose \<Rightarrow> LayerSettingsPose" where
  "spread s u =
     \<lparr>visible = (case visible_opt u of None \<Rightarrow> visible s | Some v \<Rightarrow> v),
      scale = (case scale_opt u of None \<Rightarrow> scale s | Some v \<Rightarrow> v),
      color = (case color_opt u of None \<Rightarrow> color s | Some v \<Rightarrow> v),
      showCovariance = (case showCovariance_opt u of None \<Rightarrow> showCovariance s | Some v \<Rightarrow> v),
      covarianceColor = (case covarianceColor_opt u of None \<Rightarrow> covarianceColor s | Some v \<Rightarrow> v)\<rparr>"

section \<open>Geometry synthesis\<close>

definition createArrowMarker :: "PoseMessage \<Rightarrow> LayerSettingsPose \<Rightarrow> Marker" where
  "createArrowMarker poseMessage settings =
     \<lparr>marker_header = header poseMessage,
      ns = '''',
      marker_id = 0,
      marker_type = ARROW,
      marker_action = ADD,
      marker_pose = makePose,
      marker_scale = (fst (scale settings), fst (snd (scale settings)), snd (snd (scale settings))),
      marker_color = color settings,
      lifetime = TIME_ZERO,
      frame_locked = True,
      points = [],
      colors = [],
      marker_text = '''',
      mesh_resource = '''',
      mesh_use_embedded_materials = False\<rparr>"

text \<open>
  \<open>createSphereMarker\<close> takes a \<open>PoseWithCovarianceStamped\<close>, given here by its header
  and its pose with covariance. Its declared result \<open>Marker | undefined\<close> is kept as
  an option, although every path returns a marker.
\<close>

definition createSphereMarker :: "Header \<Rightarrow> PoseWithCovariance \<Rightarrow> LayerSettingsPose \<Rightarrow> Marker option" where
  "createSphereMarker hdr pose settings =
     (let K = covariance pose;
          scale = (Math_sqrt (at_index K 0), Math_sqrt (at_index K 7), Math_sqrt (at_index K 14))
      in Some
        \<lparr>marker_header = hdr,
         ns = '''',
         marker_id = 1,
         marker_type = SPHERE,
         marker_action = ADD,
         marker_pose = makePose,
         marker_scale = scale,
         marker_color = covarianceColor settings,
         lifetime = TIME_ZERO,
         frame_locked = True,
         points = [],
         colors = [],
         marker_text = '''',
         mesh_resource = '''',
         mesh_use_embedded_materials = False\<rparr>)"

section \<open>Partial messages and their normalisation\<close>

text \<open>\<open>PartialMessage<T>\<close>: every field of the message, at every depth, may be missing.\<close>

record PartialTime =
  sec_opt :: "int option"
  nsec_opt :: "int option"

record PartialHeader =
  frame_id_opt :: "string option"
  stamp_opt :: "PartialTime option"

type_synonym PartialVector3 = "number option \<times> number option \<times> number option"
type_synonym PartialQuaternion = "number option \<times> number option \<times> number option \<times> number option"

record PartialPose =
  position_opt :: "PartialVector3 option"
  orientation_opt :: "PartialQuaternion option"

record PartialPoseStamped =
  ps_header_opt :: "PartialHeader option"
  ps_pose_opt :: "PartialPose option"

record PartialPoseWithCovariance =
  pwc_pose_opt :: "PartialPose option"
  covariance_opt :: "number list option"

record PartialPoseWithCovarianceStamped =
  pwcs_header_opt :: "PartialHeader option"
  pwcs_pose_opt :: "PartialPoseWithCovariance option"

text \<open>
  Modelled from the spec: \<open>normalizeHeader\<close>, \<open>normalizePose\<close> and \<open>normalizeMatrix6\<close>
  of \<open>../normalizeMessages\<close> are not part of the sources. The spec (Message Normalizer)
  says that every omitted scalar, vector or matrix field is filled with its
  zero-equivalent: the zero vector, identity-like defaults, and a zero covariance matrix
  of fixed size 36; a field that is present is kept.
\<close>

definition normalizeTime :: "PartialTime option \<Rightarrow> Time" where
  "normalizeTime t =
     (case t of
        None \<Rightarrow> \<lparr>sec = 0, nsec = 0\<rparr>
      | Some p \<Rightarrow> \<lparr>sec = (case sec_opt p of None \<Rightarrow> 0 | Some v \<Rightarrow> v),
                   nsec = (case nsec_opt p of None \<Rightarrow> 0 | Some v \<Rightarrow> v)\<rparr>)"

definition normalizeHeader :: "PartialHeader option \<Rightarrow> Header" where
  "normalizeHeader h =
     (case h of
        None \<Rightarrow> \<lparr>frame_id = [], stamp = normalizeTime None\<rparr>
      | Some p \<Rightarrow> \<lparr>frame_id = (case frame_id_opt p of None \<Rightarrow> [] | Some f \<Rightarrow> f),
                   stamp = normalizeTime (stamp_opt p)\<rparr>)"

definition or_default :: "number option \<Rightarrow> number \<Rightarrow> number" where
  "or_default v d = (case v of None \<Rightarrow> d | Some n \<Rightarrow> n)"

definition normalizeVector3 :: "PartialVector3 option \<Rightarrow> Vector3" where
  "normalizeVector3 v =
     (case v of
        None \<Rightarrow> (Num 0, Num 0, Num 0)
      | Some (a, b, c) \<Rightarrow> (or_default a (Num 0), or_default b (Num 0), or_default c (Num 0)))"

definition normalizeQuaternion :: "PartialQuaternion option \<Rightarrow> Quaternion" where
  "normalizeQuaternion q =
     (case q of
        None \<Rightarrow> (Num 0, Num 0, Num 0, Num 1)
      | Some (a, b, c, d) \<Rightarrow>
          (or_default a (Num 0), or_default b (Num 0), or_default c (Num 0), or_default d (Num 1)))"

definition normalizePose :: "PartialPose option \<Rightarrow> Pose" where
  "normalizePose p =
     (case p of
        None \<Rightarrow> \<lparr>position = normalizeVector3 None, orientation = normalizeQuaternion None\<rparr>
      | Some q \<Rightarrow> \<lparr>position = normalizeVector3 (position_opt q),
                   orientation = normalizeQuaternion (orientation_opt q)\<rparr>)"

definition normalizeMatrix6 :: "number list option \<Rightarrow> number list" where
  "normalizeMatrix6 mat = (case mat of None \<Rightarrow> replicate 36 (Num 0) | Some m \<Rightarrow> m)"

text \<open>
  The three normalisers of \<open>Poses.ts\<close>; \<open>pose?.covariance\<close> and \<open>pose?.pose\<close> are
  \<open>undefined\<close> when \<open>pose\<close> is.
\<close>

definition normalizePoseStamped :: "PartialPoseStamped \<Rightarrow> PoseMessage" where
  "normalizePoseStamped pose =
     PoseStamped (normalizeHeader (ps_header_opt pose)) (normalizePose (ps_pose_opt pose))"

definition normalizePoseWithCovariance :: "PartialPoseWithCovariance option \<Rightarrow> PoseWithCovariance" where
  "normalizePoseWithCovariance pose =
     (let covariance = normalizeMatrix6 (case pose of None \<Rightarrow> None | Some p \<Rightarrow> covariance_opt p)
      in PoseWithCovariance
           (normalizePose (case pose of None \<Rightarrow> None | Some p \<Rightarrow> pwc_pose_opt p))
           covariance)"

definition normalizePoseWithCovarianceStamped :: "PartialPoseWithCovarianceStamped \<Rightarrow> PoseMessage" where
  "normalizePoseWithCovarianceStamped message =
     PoseWithCovarianceStamped
       (normalizeHeader (pwcs_header_opt message))
       (normalizePoseWithCovariance (pwcs_pose_opt message))"

section \<open>Renderables and the scene extension\<close>

text \<open>
  Objects are values that carry a reference number, drawn from the counter \<open>next_ref\<close>
  of the extension when \<open>new\<close> runs: two objects are the same JavaScript object exactly
  when their reference numbers agree. Mutation in place keeps the reference number.
\<close>

text \<open>
  Modelled from the spec: the classes \<open>RenderableArrow\<close> and \<open>RenderableSphere\<close>
  (\<open>./markers\<close>) and the base class \<open>Renderable\<close> are not part of the sources. A
  primitive is modelled by what the spec says it holds: the geometry description
  (marker) it was last given, its visibility flag and whether it was disposed. A new
  primitive holds the marker it is constructed with and is visible; \<open>update\<close> replaces
  the marker.
\<close>

record RenderableArrow =
  arrow_ref :: nat
  arrow_marker :: Marker
  arrow_disposed :: bool

record RenderableSphere =
  sphere_ref :: nat
  sphere_marker :: Marker
  sphere_visible :: bool
  sphere_disposed :: bool

definition new_RenderableArrow :: "nat \<Rightarrow> Marker \<Rightarrow> RenderableArrow" where
  "new_RenderableArrow r marker = \<lparr>arrow_ref = r, arrow_marker = marker, arrow_disposed = False\<rparr>"

definition new_RenderableSphere :: "nat \<Rightarrow> Marker \<Rightarrow> RenderableSphere" where
  "new_RenderableSphere r marker =
     \<lparr>sphere_ref = r, sphere_marker = marker, sphere_visible = True, sphere_disposed = False\<rparr>"

text \<open>
  \<open>PoseRenderable\<close> with its \<open>userData\<close> (\<open>PoseUserData\<close>); \<open>attached\<close> lists the
  references of the primitives added with \<open>renderable.add\<close>.
\<close>

record PoseRenderable =
  ref :: nat
  receiveTime :: int
  messageTime :: int
  frameId :: string
  pose :: Pose
  settingsPath :: "string list"
  settings :: LayerSettingsPose
  topic :: string
  poseMessage :: PoseMessage
  arrow :: RenderableArrow
  sphere :: "RenderableSphere option"
  attached :: "nat list"
  disposed :: bool

definition PoseRenderable_dispose :: "PoseRenderable \<Rightarrow> PoseRenderable" where
  "PoseRenderable_dispose r =
     r\<lparr>arrow := (arrow r)\<lparr>arrow_disposed := True\<rparr>,
       sphere := map_option (\<lambda>s. s\<lparr>sphere_disposed := True\<rparr>) (sphere r),
       disposed := True\<rparr>"

text \<open>The values a settings field takes: a flag, a string or a vector.\<close>

datatype SettingValue = BoolValue bool | StringValue string | Vec3Value Vector3

text \<open>
  The extension: its \<open>renderables\<close> map, the objects added to it with \<open>this.add\<close>, the
  persisted configuration of the renderer and the reference counter.
\<close>

record Poses =
  renderables :: "string \<rightharpoonup> PoseRenderable"
  children :: "nat list"
  config :: "string list \<rightharpoonup> SettingValue"
  next_ref :: nat

text \<open>
  Modelled from the spec: \<open>SceneExtension.saveSetting\<close> and the renderer's configuration
  are not part of the sources. The spec says that an edit is persisted and that the
  shared settings object is patched by a path-based deep-set; the configuration is
  modelled as a store addressed by path, and \<open>config.topics[topic]\<close> read at the type
  \<open>Partial<LayerSettingsPose>\<close> holds the five fields stored under
  \<open>["topics", topic, field]\<close> with a value of the declared type.
\<close>

definition saveSetting :: "Poses \<Rightarrow> string list \<Rightarrow> SettingValue \<Rightarrow> Poses" where
  "saveSetting st path v = st\<lparr>config := (config st)(path \<mapsto> v)\<rparr>"

definition config_topics :: "(string list \<rightharpoonup> SettingValue) \<Rightarrow> string \<Rightarrow> PartialLayerSettingsPose" where
  "config_topics cfg t =
     \<lparr>visible_opt = (case cfg [''topics'', t, ''visible''] of Some (BoolValue b) \<Rightarrow> Some b | _ \<Rightarrow> None),
      scale_opt = (case cfg [''topics'', t, ''scale''] of Some (Vec3Value v) \<Rightarrow> Some v | _ \<Rightarrow> None),
      color_opt = (case cfg [''topics'', t, ''color''] of Some (StringValue s) \<Rightarrow> Some (Str s) | _ \<Rightarrow> None),
      showCovariance_opt =
        (case cfg [''topics'', t, ''showCovariance''] of Some (BoolValue b) \<Rightarrow> Some b | _ \<Rightarrow> None),
      covarianceColor_opt =
        (case cfg [''topics'', t, ''covarianceColor''] of Some (StringValue s) \<Rightarrow> Some (Str s) | _ \<Rightarrow> None)\<rparr>"

text \<open>
  \<open>_updatePoseRenderable\<close>: the renderable is mutated; the second component is the
  reference counter, advanced when the sphere is created lazily.
\<close>

definition updatePoseRenderable ::
  "PoseRenderable \<Rightarrow> PoseMessage \<Rightarrow> int \<Rightarrow> nat \<Rightarrow> PoseRenderable \<times> nat" where
  "updatePoseRenderable renderable msg rt n =
     (let r1 = renderable\<lparr>receiveTime := rt,
                           messageTime := toNanoSec (stamp (header msg)),
                           frameId := frame_id (header msg),
                           poseMessage := msg\<rparr>;
          arrowMarker = createArrowMarker msg (settings r1);
          r2 = r1\<lparr>arrow := (arrow r1)\<lparr>arrow_marker := arrowMarker\<rparr>\<rparr>
      in case msg of
           PoseWithCovarianceStamped h p \<Rightarrow>
             (let r3 = r2\<lparr>pose := pwc_pose p\<rparr> in
              case createSphereMarker h p (settings r3) of
                Some sphereMarker \<Rightarrow>
                  (let (s, n') = (case sphere r3 of
                                   None \<Rightarrow> (new_RenderableSphere n sphereMarker, Suc n)
                                 | Some s \<Rightarrow> (s, n));
                       s' = s\<lparr>sphere_visible := showCovariance (settings r3),
                              sphere_marker := sphereMarker\<rparr>
                   in (r3\<lparr>sphere := Some s'\<rparr>, n'))
              | None \<Rightarrow>
                  (case sphere r3 of
                     Some s \<Rightarrow> (r3\<lparr>sphere := Some (s\<lparr>sphere_visible := False\<rparr>)\<rparr>, n)
                   | None \<Rightarrow> (r3, n)))
         | PoseStamped h p \<Rightarrow> (r2\<lparr>pose := p\<rparr>, n))"

text \<open>
  \<open>addPose\<close>: \<open>new_PoseRenderable\<close> is the branch taken when the map has no renderable
  for the topic; it allocates the arrow, the renderable and, for a message with
  covariance, the sphere, and registers the renderable.
\<close>

definition new_PoseRenderable :: "Poses \<Rightarrow> string \<Rightarrow> PoseMessage \<Rightarrow> int \<Rightarrow> Poses \<times> PoseRenderable" where
  "new_PoseRenderable st tp msg rt =
     (let userSettings = config_topics (config st) tp;
          settings = spread DEFAULT_SETTINGS userSettings;
          arrowMarker = createArrowMarker msg settings;
          arrow = new_RenderableArrow (next_ref st) arrowMarker;
          renderable =
            \<lparr>ref = Suc (next_ref st),
             receiveTime = rt,
             messageTime = toNanoSec (stamp (header msg)),
             frameId = frame_id (header msg),
             pose = (case msg of PoseWithCovarianceStamped h p \<Rightarrow> pwc_pose p | PoseStamped h p \<Rightarrow> p),
             settingsPath = [''topics'', tp],
             settings = settings,
             topic = tp,
             poseMessage = msg,
             arrow = arrow,
             sphere = None,
             attached = [arrow_ref arrow],
             disposed = False\<rparr>;
          n = Suc (Suc (next_ref st));
          (renderable', n') =
            (case msg of
               PoseWithCovarianceStamped h p \<Rightarrow>
                 (case createSphereMarker h p settings of
                    Some sphereMarker \<Rightarrow>
                      (renderable\<lparr>sphere := Some (new_RenderableSphere n sphereMarker),
                                  attached := attached renderable @ [n]\<rparr>, Suc n)
                  | None \<Rightarrow> (renderable, n))
             | PoseStamped h p \<Rightarrow> (renderable, n))
      in (st\<lparr>children := children st @ [ref renderable'],
              renderables := (renderables st)(tp \<mapsto> renderable'),
              next_ref := n'\<rparr>, renderable'))"

definition addPose :: "Poses \<Rightarrow> string \<Rightarrow> PoseMessage \<Rightarrow> int \<Rightarrow> Poses" where
  "addPose st tp msg rt =
     (let (st1, renderable) = (case renderables st tp of
                                 None \<Rightarrow> new_PoseRenderable st tp msg rt
                               | Some r \<Rightarrow> (st, r));
          (renderable', n) = updatePoseRenderable renderable msg rt (next_ref st1)
      in st1\<lparr>renderables := (renderables st1)(tp \<mapsto> renderable'), next_ref := n\<rparr>)"

record 'm MessageEvent =
  event_topic :: string
  event_receiveTime :: Time
  event_message :: 'm

definition handlePoseStamped :: "Poses \<Rightarrow> PartialPoseStamped MessageEvent \<Rightarrow> Poses" where
  "handlePoseStamped st messageEvent =
     (let msg = normalizePoseStamped (event_message messageEvent);
          rt = toNanoSec (event_receiveTime messageEvent)
      in addPose st (event_topic messageEvent) msg rt)"

definition handlePoseWithCovariance ::
  "Poses \<Rightarrow> PartialPoseWithCovarianceStamped MessageEvent \<Rightarrow> Poses" where
  "handlePoseWithCovariance st messageEvent =
     (let msg = normalizePoseWithCovarianceStamped (event_message messageEvent);
          rt = toNanoSec (event_receiveTime messageEvent)
      in addPose st (event_topic messageEvent) msg rt)"

text \<open>
  A settings tree action: \<open>action.action\<close>, \<open>action.payload.path\<close> and
  \<open>action.payload.value\<close>.
\<close>

record SettingsTreeAction =
  action :: string
  payload_path :: "string list"
  payload_value :: SettingValue

definition handleSettingsAction :: "Poses \<Rightarrow> SettingsTreeAction \<Rightarrow> Poses" where
  "handleSettingsAction st a =
     (let path = payload_path a in
      if action a \<noteq> ''update'' \<or> length path \<noteq> 3 then st
      else
        (let st1 = saveSetting st path (payload_value a);
             topicName = path ! 1
         in case renderables st1 topicName of
              None \<Rightarrow> st1
            | Some renderable \<Rightarrow>
                (let us = config_topics (config st1) topicName;
                     r1 = renderable\<lparr>settings := spread (settings renderable) us\<rparr>;
                     (r2, n) = updatePoseRenderable r1 (poseMessage r1) (receiveTime r1) (next_ref st1)
                 in st1\<lparr>renderables := (renderables st1)(topicName \<mapsto> r2), next_ref := n\<rparr>)))"

text \<open>
  A fresh extension over a given persisted configuration, and its run over a
  sequence of deliveries and edits, each processed to completion before the next.
\<close>

definition Poses_new :: "(string list \<rightharpoonup> SettingValue) \<Rightarrow> Poses" where
  "Poses_new cfg = \<lparr>renderables = Map.empty, children = [], config = cfg, next_ref = 0\<rparr>"

datatype Event =
    PoseStampedEvent "PartialPoseStamped MessageEvent"
  | PoseWithCovarianceEvent "PartialPoseWithCovarianceStamped MessageEvent"
  | SettingsEvent SettingsTreeAction

fun dispatch :: "Poses \<Rightarrow> Event \<Rightarrow> Poses" where
  "dispatch st (PoseStampedEvent e) = handlePoseStamped st e"
| "dispatch st (PoseWithCovarianceEvent e) = handlePoseWithCovariance st e"
| "dispatch st (SettingsEvent a) = handleSettingsAction st a"

definition run :: "Poses \<Rightarrow> Event list \<Rightarrow> Poses" where
  "run st evs = foldl dispatch st evs"

text \<open>
  Delivery of one normalised message with its receive time on a fixed topic, folded over
  a sequence of messages.
\<close>

definition deliver :: "string \<Rightarrow> Poses \<Rightarrow> PoseMessage \<times> int \<Rightarrow> Poses" where
  "deliver tp st m = addPose st tp (fst m) (snd m)"

text \<open>
  The single merge \<open>{ ...defaults, ...override1, ...override2 }\<close> as the spec words it:
  the defaults overridden by the two overrides taken together, a field of the second
  winning over the same field of the first.
\<close>

definition spread_partial ::
  "PartialLayerSettingsPose \<Rightarrow> PartialLayerSettingsPose \<Rightarrow> PartialLayerSettingsPose" where
  "spread_partial a b =
     \<lparr>visible_opt = (case visible_opt b of None \<Rightarrow> visible_opt a | Some v \<Rightarrow> Some v),
      scale_opt = (case scale_opt b of None \<Rightarrow> scale_opt a | Some v \<Rightarrow> Some v),
      color_opt = (case color_opt b of None \<Rightarrow> color_opt a | Some v \<Rightarrow> Some v),
      showCovariance_opt =
        (case showCovariance_opt b of None \<Rightarrow> showCovariance_opt a | Some v \<Rightarrow> Some v),
      covarianceColor_opt =
        (case covarianceColor_opt b of None \<Rightarrow> covarianceColor_opt a | Some v \<Rightarrow> Some v)\<rparr>"

definition single_merge ::
  "LayerSettingsPose \<Rightarrow> PartialLayerSettingsPose \<Rightarrow> PartialLayerSettingsPose \<Rightarrow> LayerSettingsPose" where
  "single_merge defaults override1 override2 = spread defaults (spread_partial override1 override2)"




text \<open>
  The example of the spec: a message on \<open>/pose\<close> whose covariance has 0.04, 0.09 and
  0.01 at the offsets 0, 7 and 14.
\<close>

definition example_covariance :: "number list" where
  "example_covariance =
     [Num (4 / 100), Num 0, Num 0, Num 0, Num 0, Num 0,
      Num 0, Num (9 / 100), Num 0, Num 0, Num 0, Num 0,
      Num 0, Num 0, Num (1 / 100), Num 0, Num 0, Num 0] @ replicate 18 (Num 0)"

definition example_pose_event :: "PartialPoseWithCovarianceStamped MessageEvent" where
  "example_pose_event =
     \<lparr>event_topic = ''/pose'',
      event_receiveTime = \<lparr>sec = 5, nsec = 0\<rparr>,
      event_message =
        \<lparr>pwcs_header_opt = Some \<lparr>frame_id_opt = Some ''map'', stamp_opt = None\<rparr>,
         pwcs_pose_opt = Some \<lparr>pwc_pose_opt = None, covariance_opt = Some example_covariance\<rparr>\<rparr>\<rparr>"


section \<open>The diagnostics summary (\<open>DiagnosticSummary.tsx\<close>)\<close>

record DiagnosticStatusMessage =
  level :: nat
  hardware_id :: string
  name :: string
  message :: string




text \<open>\<open>String.prototype.split\<close> with a separator of one character.\<close>

fun split :: "char \<Rightarrow> string \<Rightarrow> string list" where
  "split c [] = [[]]"
| "split c (x # xs) =
     (if x = c then [] # split c xs
      else (case split c xs of [] \<Rightarrow> [[x]] | w # ws \<Rightarrow> (x # w) # ws))"



















section \<open>The chart manager (\<open>ChartJSManager.ts\<close>)\<close>

text \<open>
  Chart.js and its zoom and datalabels plugins are external libraries. The chart
  instance is modelled by the properties the manager reads and writes, and what the
  libraries do is a parameter of every operation (a record of functions): the joint
  effect on the chart of the listeners the zoom plugin holds on the fake node and on the
  fake document, the pan handlers of \<open>$zoom\<close>, \<open>update\<close>, \<open>resize\<close>, \<open>destroy\<close>,
  \<open>notifyPlugins\<close> and lodash's \<open>merge\<close>. An operation of the manager raises where it
  reads a property of a missing object (\<open>$zoom\<close>, \<open>canvas\<close>) and where \<open>update\<close> or
  \<open>resize\<close> of the instance raises, as Chart.js does on a destroyed instance; an
  exception ends the operation without a result. The listeners and the handlers of the
  zoom plugin, \<open>notifyPlugins\<close> and \<open>merge\<close> are taken to return.
\<close>

record ChartScale =
  scale_left :: number
  scale_right :: number
  scale_min :: number
  scale_max :: number


datatype Datum = NumberDatum number | PointDatum number number "string option"

record DatalabelContext =
  dataset_data :: "Datum list"
  dataIndex :: nat

text \<open>
  \<open>options.plugins.datalabels\<close>: whether the click listener and the label formatter of
  the manager are installed, the colour given and the static colour the per-dataset
  colour function falls back to.
\<close>

record Datalabels =
  listeners_click :: bool
  formatter_label :: bool
  datalabels_color :: "string option"
  staticColor :: "string option"

type_synonym ScaleOptions = "(string \<times> number option \<times> number option) list"

record ChartOptions =
  plugins_datalabels :: "Datalabels option"
  options_scales :: ScaleOptions
  devicePixelRatio :: "number option"

text \<open>
  \<open>chart_canvas\<close> is the canvas of the instance with its width and height, if it has one;
  \<open>chart_zoom\<close> says whether the instance has the property \<open>$zoom\<close>, which the zoom plugin
  sets when it starts and which holds its pan handlers.
\<close>

record Chart =
  chart_scales :: "(string \<times> ChartScale) list"
  chart_data :: "Datum list list"
  chart_options :: ChartOptions
  chart_width :: nat
  chart_height :: nat
  chart_canvas :: "(nat \<times> nat) option"
  chart_zoom :: bool

type_synonym Rect = "number \<times> number \<times> number \<times> number"

record ChartEvent =
  target_boundingClientRect :: Rect
  target_getBoundingClientRect :: "Rect option"
  clientX :: number
  clientY :: number

datatype js_error = TypeError

record ChartJS =
  new_Chart :: "Datum list list \<Rightarrow> ChartOptions \<Rightarrow> Chart"
  node_listeners :: "string \<Rightarrow> ChartEvent \<Rightarrow> Chart \<Rightarrow> Chart"
  document_listeners :: "string \<Rightarrow> ChartEvent \<Rightarrow> Chart \<Rightarrow> Chart"
  panStartHandler :: "ChartEvent \<Rightarrow> Chart \<Rightarrow> Chart"
  panHandler :: "ChartEvent \<Rightarrow> Chart \<Rightarrow> Chart"
  panEndHandler :: "ChartEvent \<Rightarrow> Chart \<Rightarrow> Chart"
  Chart_update :: "Chart \<Rightarrow> js_error + Chart"
  Chart_resize :: "nat \<Rightarrow> nat \<Rightarrow> Chart \<Rightarrow> js_error + Chart"
  Chart_destroy :: "Chart \<Rightarrow> Chart"
  notifyPlugins_beforeEvent :: "ChartEvent \<Rightarrow> Chart \<Rightarrow> Chart \<times> DatalabelContext option"
  lodash_merge :: "ScaleOptions \<Rightarrow> ScaleOptions \<Rightarrow> ScaleOptions"

record ChartJSManager =
  chartInstance :: Chart
  lastDatalabelClickContext :: "DatalabelContext option"

definition addFunctionsToConfig :: "ChartOptions \<Rightarrow> ChartOptions" where
  "addFunctionsToConfig cfg =
     (case plugins_datalabels cfg of
        None \<Rightarrow> cfg
      | Some d \<Rightarrow>
          cfg\<lparr>plugins_datalabels :=
                Some (d\<lparr>listeners_click := True,
                         formatter_label := True,
                         staticColor := Some (case datalabels_color d of None \<Rightarrow> ''white'' | Some c \<Rightarrow> c)\<rparr>)\<rparr>)"

definition new_ChartJSManager ::
  "ChartJS \<Rightarrow> Datum list list \<Rightarrow> ChartOptions \<Rightarrow> number \<Rightarrow> ChartJSManager" where
  "new_ChartJSManager lib data options ratio =
     (let fullOptions = (addFunctionsToConfig options)\<lparr>devicePixelRatio := Some ratio\<rparr>;
          chartInstance = new_Chart lib data fullOptions
      in \<lparr>chartInstance = chartInstance, lastDatalabelClickContext = None\<rparr>)"












text \<open>
  \<open>getDatalabelAtEvent\<close>: \<open>notifyPlugins\<close> hands the event to the datalabels plugin, which
  calls the click listener of the chart's options, when there is one, with the context
  of the label the event clicked; the listener installed by \<open>addFunctionsToConfig\<close>
  stores that context in the manager.
\<close>

definition getDatalabelAtEvent :: "ChartJS \<Rightarrow> ChartJSManager \<Rightarrow> ChartEvent \<Rightarrow> ChartJSManager \<times> Datum option" where
  "getDatalabelAtEvent lib m ev =
     (let notified = notifyPlugins_beforeEvent lib ev (chartInstance m);
          m1 = m\<lparr>chartInstance := fst notified\<rparr>;
          listening = (case plugins_datalabels (chart_options (chartInstance m)) of
                         None \<Rightarrow> False
                       | Some d \<Rightarrow> listeners_click d);
          m2 = (case snd notified of
                  None \<Rightarrow> m1
                | Some clicked \<Rightarrow>
                    if listening then m1\<lparr>lastDatalabelClickContext := Some clicked\<rparr> else m1);
          ctx = lastDatalabelClickContext m2;
          m3 = m2\<lparr>lastDatalabelClickContext := None\<rparr>
      in (m3, case ctx of None \<Rightarrow> None | Some c \<Rightarrow> at_index (dataset_data c) (dataIndex c)))"



text \<open>
  A library for the examples. As Chart.js and the zoom plugin do, its \<open>destroy\<close>
  releases the canvas, deletes \<open>$zoom\<close> and leaves the instance with its scales, and its
  \<open>update\<close> and \<open>resize\<close> raise on an instance without canvas; its listeners and
  handlers do nothing; its datalabels plugin reports a click on the first label of the
  first dataset when the event is at x = 1.
\<close>

definition example_library :: ChartJS where
  "example_library =
     \<lparr>new_Chart = (\<lambda>data options.
         \<lparr>chart_scales = [(''x'', \<lparr>scale_left = Num 0, scale_right = Num 100,
                                    scale_min = Num 0, scale_max = Num 10\<rparr>)],
          chart_data = data, chart_options = options,
          chart_width = 100, chart_height = 50, chart_canvas = Some (100, 50),
          chart_zoom = True\<rparr>),
      node_listeners = (\<lambda>n ev c. c),
      document_listeners = (\<lambda>n ev c. c),
      panStartHandler = (\<lambda>ev c. c),
      panHandler = (\<lambda>ev c. c),
      panEndHandler = (\<lambda>ev c. c),
      Chart_update = (\<lambda>c. if chart_canvas c = None then Inl TypeError else Inr c),
      Chart_resize = (\<lambda>w h c. if chart_canvas c = None then Inl TypeError
                               else Inr (c\<lparr>chart_width := w, chart_height := h\<rparr>)),
      Chart_destroy = (\<lambda>c. c\<lparr>chart_canvas := None, chart_zoom := False\<rparr>),
      notifyPlugins_beforeEvent = (\<lambda>ev c.
         (c, if clientX ev = Num 1
             then (case chart_data c of
                     [] \<Rightarrow> None
                   | ds # rest \<Rightarrow> Some \<lparr>dataset_data = ds, dataIndex = 0\<rparr>)
             else None)),
      lodash_merge = (\<lambda>a b. b @ filter (\<lambda>e. fst e \<notin> set (map fst b)) a)\<rparr>"

definition example_manager :: ChartJSManager where
  "example_manager =
     new_ChartJSManager example_library
       [[PointDatum (Num 1) (Num 2) (Some ''a'')]]
       \<lparr>plugins_datalabels = Some \<lparr>listeners_click = False, formatter_label = False,
                                    datalabels_color = None, staticColor = None\<rparr>,
        options_scales = [], devicePixelRatio = None\<rparr>
       (Num 1)"

definition example_event :: "number \<Rightarrow> ChartEvent" where
  "example_event px =
     \<lparr>target_boundingClientRect = (Num 0, Num 0, Num 100, Num 50),
      target_getBoundingClientRect = None, clientX = px, clientY = Num 0\<rparr>"

section \<open>Properties of the pose scene extension\<close>

subsection \<open>Markers and the update of a renderable\<close>

lemma createSphereMarker_total: "\<exists>m. createSphereMarker h p s = Some m"
  by (simp add: createSphereMarker_def Let_def)

lemma createSphereMarker_scale:
  "\<exists>m. createSphereMarker h p s = Some m \<and>
       marker_scale m = (Math_sqrt (at_index (covariance p) 0), Math_sqrt (at_index (covariance p) 7),
                         Math_sqrt (at_index (covariance p) 14))"
  by (simp add: createSphereMarker_def Let_def)


lemma updatePoseRenderable_PoseStamped:
  "updatePoseRenderable r (PoseStamped h p) rt n =
     (r\<lparr>receiveTime := rt, messageTime := toNanoSec (stamp h), frameId := frame_id h,
        poseMessage := PoseStamped h p,
        arrow := (arrow r)\<lparr>arrow_marker := createArrowMarker (PoseStamped h p) (settings r)\<rparr>,
        pose := p\<rparr>, n)"
  by (simp add: updatePoseRenderable_def Let_def)

lemma updatePoseRenderable_PoseWithCovarianceStamped:
  "createSphereMarker h p (settings r) = Some m \<Longrightarrow>
   updatePoseRenderable r (PoseWithCovarianceStamped h p) rt n =
     (r\<lparr>receiveTime := rt, messageTime := toNanoSec (stamp h), frameId := frame_id h,
        poseMessage := PoseWithCovarianceStamped h p,
        arrow := (arrow r)\<lparr>arrow_marker := createArrowMarker (PoseWithCovarianceStamped h p) (settings r)\<rparr>,
        pose := pwc_pose p,
        sphere := Some ((case sphere r of None \<Rightarrow> new_RenderableSphere n m | Some s \<Rightarrow> s)
                          \<lparr>sphere_visible := showCovariance (settings r), sphere_marker := m\<rparr>)\<rparr>,
      case sphere r of None \<Rightarrow> Suc n | Some s \<Rightarrow> n)"
  by (simp add: updatePoseRenderable_def Let_def split: option.splits)

lemma updatePoseRenderable_ref [simp]:
  "ref (fst (updatePoseRenderable r msg rt n)) = ref r"
  by (cases msg) (auto simp: updatePoseRenderable_def Let_def createSphereMarker_def split: option.splits prod.splits)

lemma updatePoseRenderable_settings [simp]:
  "settings (fst (updatePoseRenderable r msg rt n)) = settings r"
proof (cases msg)
  case (PoseStamped h p)
  then show ?thesis by (simp add: updatePoseRenderable_PoseStamped)
next
  case (PoseWithCovarianceStamped h p)
  obtain m where "createSphereMarker h p (settings r) = Some m"
    using createSphereMarker_total by blast
  with PoseWithCovarianceStamped show ?thesis
    by (simp add: updatePoseRenderable_PoseWithCovarianceStamped)
qed

lemma updatePoseRenderable_message [simp]:
  "poseMessage (fst (updatePoseRenderable r msg rt n)) = msg \<and>
   receiveTime (fst (updatePoseRenderable r msg rt n)) = rt \<and>
   messageTime (fst (updatePoseRenderable r msg rt n)) = toNanoSec (stamp (header msg)) \<and>
   arrow_marker (arrow (fst (updatePoseRenderable r msg rt n))) = createArrowMarker msg (settings r)"
proof (cases msg)
  case (PoseStamped h p)
  then show ?thesis by (simp add: updatePoseRenderable_PoseStamped)
next
  case (PoseWithCovarianceStamped h p)
  obtain m where "createSphereMarker h p (settings r) = Some m"
    using createSphereMarker_total by blast
  with PoseWithCovarianceStamped show ?thesis
    by (simp add: updatePoseRenderable_PoseWithCovarianceStamped)
qed

lemma updatePoseRenderable_cov_sphere:
  "\<exists>s. sphere (fst (updatePoseRenderable r (PoseWithCovarianceStamped h p) rt n)) = Some s \<and>
       createSphereMarker h p (settings r) = Some (sphere_marker s) \<and>
       sphere_visible s = showCovariance (settings r) \<and>
       sphere_ref s = (case sphere r of None \<Rightarrow> n | Some s0 \<Rightarrow> sphere_ref s0) \<and>
       sphere_disposed s = (case sphere r of None \<Rightarrow> False | Some s0 \<Rightarrow> sphere_disposed s0)"
  by (auto simp: updatePoseRenderable_def Let_def createSphereMarker_def new_RenderableSphere_def split: option.splits prod.splits)

lemma updatePoseRenderable_sphere_origin:
  "sphere (fst (updatePoseRenderable r msg rt n)) \<noteq> None \<Longrightarrow>
     sphere r \<noteq> None \<or> covariance_in_pose msg"
  by (cases msg) (simp_all add: updatePoseRenderable_PoseStamped)

subsection \<open>What \<open>addPose\<close> does to the extension\<close>

lemma addPose_existing:
  "renderables st tp = Some r \<Longrightarrow>
   addPose st tp msg rt =
     st\<lparr>renderables := (renderables st)(tp \<mapsto> fst (updatePoseRenderable r msg rt (next_ref st))),
        next_ref := snd (updatePoseRenderable r msg rt (next_ref st))\<rparr>"
  by (simp add: addPose_def Let_def split_beta)

lemma new_PoseRenderable_facts:
  "new_PoseRenderable st tp msg rt = (st1, r) \<Longrightarrow>
     ref r = Suc (next_ref st) \<and> children st1 = children st @ [Suc (next_ref st)] \<and>
     config st1 = config st \<and> renderables st1 = (renderables st)(tp \<mapsto> r) \<and>
     settings r = spread DEFAULT_SETTINGS (config_topics (config st) tp) \<and> poseMessage r = msg \<and>
     (sphere r \<noteq> None \<longrightarrow> covariance_in_pose msg)"
  by (cases msg) (auto simp: new_PoseRenderable_def Let_def createSphereMarker_def split: prod.splits option.splits)

lemma addPose_new:
  "renderables st tp = None \<Longrightarrow>
   \<exists>r'. renderables (addPose st tp msg rt) tp = Some r' \<and> ref r' = Suc (next_ref st) \<and>
        children (addPose st tp msg rt) = children st @ [Suc (next_ref st)]"
proof -
  assume none: "renderables st tp = None"
  obtain st1 r where new: "new_PoseRenderable st tp msg rt = (st1, r)"
    by (cases "new_PoseRenderable st tp msg rt")
  from new_PoseRenderable_facts [OF new] none new show ?thesis
    by (simp add: addPose_def Let_def split_beta)
qed

lemma addPose_other:
  "t' \<noteq> tp \<Longrightarrow> renderables (addPose st tp msg rt) t' = renderables st t'"
proof (cases "renderables st tp")
  case None
  assume ne: "t' \<noteq> tp"
  obtain st1 r where new: "new_PoseRenderable st tp msg rt = (st1, r)"
    by (cases "new_PoseRenderable st tp msg rt")
  from new_PoseRenderable_facts [OF new] None new ne show ?thesis
    by (simp add: addPose_def Let_def split_beta)
next
  case (Some r)
  assume "t' \<noteq> tp"
  with Some show ?thesis by (simp add: addPose_existing)
qed

lemma addPose_config [simp]: "config (addPose st tp msg rt) = config st"
proof (cases "renderables st tp")
  case None
  obtain st1 r where new: "new_PoseRenderable st tp msg rt = (st1, r)"
    by (cases "new_PoseRenderable st tp msg rt")
  from new_PoseRenderable_facts [OF new] None new show ?thesis
    by (simp add: addPose_def Let_def split_beta)
next
  case (Some r)
  then show ?thesis by (simp add: addPose_existing)
qed

lemma addPose_renderables:
  "\<exists>r. (case renderables st tp of
          None \<Rightarrow> settings r = spread DEFAULT_SETTINGS (config_topics (config st) tp) \<and> ref r = Suc (next_ref st) \<and>
                  (sphere r \<noteq> None \<longrightarrow> covariance_in_pose msg)
        | Some r0 \<Rightarrow> r = r0) \<and>
       (\<exists>n. renderables (addPose st tp msg rt) =
          (renderables st)(tp \<mapsto> fst (updatePoseRenderable r msg rt n)))"
proof (cases "renderables st tp")
  case None
  obtain st1 r where new: "new_PoseRenderable st tp msg rt = (st1, r)"
    by (cases "new_PoseRenderable st tp msg rt")
  note f = new_PoseRenderable_facts [OF new]
  have "renderables (addPose st tp msg rt) =
          (renderables st)(tp \<mapsto> fst (updatePoseRenderable r msg rt (next_ref st1)))"
    using None new f by (simp add: addPose_def Let_def split_beta)
  with f None show ?thesis by auto
next
  case (Some r)
  then show ?thesis by (auto simp: addPose_existing)
qed


lemma addPose_new_settings:
  assumes "renderables st tp = None"
  shows "\<exists>r. renderables (addPose st tp msg rt) tp = Some r \<and>
             settings r = spread DEFAULT_SETTINGS (config_topics (config st) tp)"
  using addPose_renderables [of st tp msg rt] assms by auto

lemma addPose_cov_sphere:
  "\<exists>r s m. renderables (addPose st tp (PoseWithCovarianceStamped h p) rt) tp = Some r \<and>
       sphere r = Some s \<and> createSphereMarker h p (settings r) = Some m \<and> sphere_marker s = m"
proof (cases "renderables st tp")
  case None
  obtain st1 r where new: "new_PoseRenderable st tp (PoseWithCovarianceStamped h p) rt = (st1, r)"
    by (cases "new_PoseRenderable st tp (PoseWithCovarianceStamped h p) rt")
  from updatePoseRenderable_cov_sphere [of r h p rt "next_ref st1"] obtain s where
    "sphere (fst (updatePoseRenderable r (PoseWithCovarianceStamped h p) rt (next_ref st1))) = Some s"
    "createSphereMarker h p (settings r) = Some (sphere_marker s)" by blast
  moreover have "settings (fst (updatePoseRenderable r (PoseWithCovarianceStamped h p) rt (next_ref st1))) = settings r"
    by (auto simp: updatePoseRenderable_def Let_def createSphereMarker_def split: option.splits prod.splits)
  ultimately show ?thesis using None new
    by (simp add: addPose_def Let_def split_beta)
next
  case (Some r)
  from updatePoseRenderable_cov_sphere [of r h p rt "next_ref st"] obtain s where
    "sphere (fst (updatePoseRenderable r (PoseWithCovarianceStamped h p) rt (next_ref st))) = Some s"
    "createSphereMarker h p (settings r) = Some (sphere_marker s)" by blast
  moreover have "settings (fst (updatePoseRenderable r (PoseWithCovarianceStamped h p) rt (next_ref st))) = settings r"
    by (auto simp: updatePoseRenderable_def Let_def createSphereMarker_def split: option.splits prod.splits)
  ultimately show ?thesis using Some
    by (simp add: addPose_existing)
qed

lemma deliver_all_existing:
  "renderables st tp = Some r \<Longrightarrow>
     children (foldl (deliver tp) st ms) = children st \<and>
     (\<exists>rn. renderables (foldl (deliver tp) st ms) tp = Some rn \<and> ref rn = ref r) \<and>
     (\<forall>t'. t' \<noteq> tp \<longrightarrow> renderables (foldl (deliver tp) st ms) t' = renderables st t')"
proof (induction ms arbitrary: st r)
  case Nil
  then show ?case by simp
next
  case (Cons m ms)
  let ?st1 = "deliver tp st m"
  have step: "renderables ?st1 tp = Some (fst (updatePoseRenderable r (fst m) (snd m) (next_ref st)))"
    and ch: "children ?st1 = children st"
    using Cons.prems by (simp_all add: deliver_def addPose_existing)
  have other: "\<And>t'. t' \<noteq> tp \<Longrightarrow> renderables ?st1 t' = renderables st t'"
    by (simp add: deliver_def addPose_other)
  from Cons.IH [OF step] ch other show ?case by simp
qed

subsection \<open>Settings and their persistence\<close>


lemma spread_spread: "spread (spread d a) b = spread d (spread_partial a b)"
  by (simp add: spread_def spread_partial_def split: option.splits)




lemma handleSettingsAction_config:
  "action a = ''update'' \<Longrightarrow> length (payload_path a) = 3 \<Longrightarrow>
     config (handleSettingsAction st a) = (config st)(payload_path a \<mapsto> payload_value a)"
  by (simp add: handleSettingsAction_def saveSetting_def Let_def split_beta split: option.splits)

lemma handleSettingsAction_existing:
  assumes "action a = ''update''" and "payload_path a = [p0, tp, f]" and "renderables st tp = Some r"
  shows "\<exists>n. handleSettingsAction st a =
     st\<lparr>config := (config st)(payload_path a \<mapsto> payload_value a),
        renderables := (renderables st)(tp \<mapsto>
          fst (updatePoseRenderable
                (r\<lparr>settings := spread (settings r)
                      (config_topics ((config st)(payload_path a \<mapsto> payload_value a)) tp)\<rparr>)
                (poseMessage r) (receiveTime r) (next_ref st))),
        next_ref := n\<rparr> \<and>
     n = snd (updatePoseRenderable
                (r\<lparr>settings := spread (settings r)
                      (config_topics ((config st)(payload_path a \<mapsto> payload_value a)) tp)\<rparr>)
                (poseMessage r) (receiveTime r) (next_ref st))"
  using assms by (simp add: handleSettingsAction_def saveSetting_def Let_def split_beta)

subsection \<open>Invariants of a running extension\<close>









subsection \<open>The scale of the covariance sphere\<close>

lemma sqrt_examples:
  "sqrt (4 / 100) = 2 / 10" "sqrt (9 / 100) = 3 / 10" "sqrt (1 / 100) = 1 / 10"
  by (rule real_sqrt_unique; simp add: power2_eq_square)+

text \<open>
  Claim C1. Whatever the state of the extension and whatever the incoming
  \<open>PoseWithCovarianceStamped\<close> message, after \<open>handlePoseWithCovariance\<close> the renderable of
  the topic has a sphere whose marker is the one \<open>createSphereMarker\<close> builds from the
  normalised message, and the scale of that marker is
  \<open>(sqrt K[0], sqrt K[7], sqrt K[14])\<close> for the covariance \<open>K\<close> of the normalised message.
  In particular the entries 0.04, 0.09 and 0.01 at the offsets 0, 7 and 14 give the scale
  \<open>(0.2, 0.3, 0.1)\<close>.
\<close>
theorem sphere_scale_is_sqrt_of_covariance_diagonal:
  fixes st :: Poses and ev :: "PartialPoseWithCovarianceStamped MessageEvent"
  shows "\<exists>h p r s.
     normalizePoseWithCovarianceStamped (event_message ev) = PoseWithCovarianceStamped h p \<and>
     renderables (handlePoseWithCovariance st ev) (event_topic ev) = Some r \<and>
     sphere r = Some s \<and>
     createSphereMarker h p (settings r) = Some (sphere_marker s) \<and>
     marker_scale (sphere_marker s) =
       (Math_sqrt (at_index (covariance p) 0), Math_sqrt (at_index (covariance p) 7),
        Math_sqrt (at_index (covariance p) 14)) \<and>
     (at_index (covariance p) 0 = Some (Num (4 / 100)) \<and>
      at_index (covariance p) 7 = Some (Num (9 / 100)) \<and>
      at_index (covariance p) 14 = Some (Num (1 / 100)) \<longrightarrow>
        marker_scale (sphere_marker s) = (Num (2 / 10), Num (3 / 10), Num (1 / 10)))"
proof -
  obtain h p where norm: "normalizePoseWithCovarianceStamped (event_message ev) = PoseWithCovarianceStamped h p"
    by (simp add: normalizePoseWithCovarianceStamped_def)
  from addPose_cov_sphere [of st "event_topic ev" h p "toNanoSec (event_receiveTime ev)"]
  obtain r s where rs: "renderables (handlePoseWithCovariance st ev) (event_topic ev) = Some r"
    "sphere r = Some s" "createSphereMarker h p (settings r) = Some (sphere_marker s)"
    using norm by (auto simp: handlePoseWithCovariance_def Let_def)
  from rs(3) have sc: "marker_scale (sphere_marker s) =
       (Math_sqrt (at_index (covariance p) 0), Math_sqrt (at_index (covariance p) 7),
        Math_sqrt (at_index (covariance p) 14))"
    using createSphereMarker_scale [of h p "settings r"] by auto
  have "at_index (covariance p) 0 = Some (Num (4 / 100)) \<and>
      at_index (covariance p) 7 = Some (Num (9 / 100)) \<and>
      at_index (covariance p) 14 = Some (Num (1 / 100)) \<longrightarrow>
        marker_scale (sphere_marker s) = (Num (2 / 10), Num (3 / 10), Num (1 / 10))"
    using sc sqrt_examples by (simp add: Math_sqrt_def)
  with norm rs sc show ?thesis by blast
qed

theorem sphere_scale_example:
  "\<exists>r s. renderables (handlePoseWithCovariance (Poses_new Map.empty) example_pose_event) ''/pose'' = Some r \<and>
         sphere r = Some s \<and>
         marker_scale (sphere_marker s) = (Num (2 / 10), Num (3 / 10), Num (1 / 10))"
  using sphere_scale_is_sqrt_of_covariance_diagonal [of example_pose_event "Poses_new Map.empty"]
  by (auto simp: example_pose_event_def example_covariance_def normalizePoseWithCovarianceStamped_def
      normalizePoseWithCovariance_def normalizeMatrix6_def at_index_def)

subsection \<open>One renderable per topic\<close>

lemma addPose_keeps_ref:
  assumes "renderables st t = Some r"
  shows "\<exists>r'. renderables (addPose st tp msg rt) t = Some r' \<and> ref r' = ref r"
proof (cases "t = tp")
  case True
  with assms show ?thesis by (simp add: addPose_existing)
next
  case False
  with assms show ?thesis by (simp add: addPose_other)
qed

lemma handleSettingsAction_keeps_ref:
  assumes "renderables st t = Some r"
  shows "\<exists>r'. renderables (handleSettingsAction st a) t = Some r' \<and> ref r' = ref r"
proof (cases "action a \<noteq> ''update'' \<or> length (payload_path a) \<noteq> 3")
  case True
  with assms show ?thesis by (auto simp: handleSettingsAction_def Let_def)
next
  case False
  let ?tn = "payload_path a ! 1"
  from False have len: "length (payload_path a) = 3" and upd: "action a = ''update''" by auto
  show ?thesis
  proof (cases "renderables st ?tn")
    case None
    then have "renderables (handleSettingsAction st a) = renderables st"
      using len upd by (simp add: handleSettingsAction_def saveSetting_def Let_def)
    with assms show ?thesis by simp
  next
    case (Some r0)
    then obtain r1 where eq: "renderables (handleSettingsAction st a) = (renderables st)(?tn \<mapsto> r1)"
      and r1: "ref r1 = ref r0"
      using len upd by (simp add: handleSettingsAction_def saveSetting_def Let_def split_beta)
    show ?thesis
    proof (cases "t = ?tn")
      case True
      with assms Some eq r1 show ?thesis by simp
    next
      case False
      with assms eq show ?thesis by simp
    qed
  qed
qed

lemma run_keeps_ref:
  "renderables st t = Some r \<Longrightarrow> \<exists>r'. renderables (run st evs) t = Some r' \<and> ref r' = ref r"
proof (induction evs arbitrary: st r)
  case Nil
  then show ?case by (simp add: run_def)
next
  case (Cons e evs)
  have "\<exists>r1. renderables (dispatch st e) t = Some r1 \<and> ref r1 = ref r"
    using Cons.prems
    by (cases e) (simp_all add: handlePoseStamped_def handlePoseWithCovariance_def Let_def
        addPose_keeps_ref handleSettingsAction_keeps_ref)
  then obtain r1 where r1: "renderables (dispatch st e) t = Some r1" "ref r1 = ref r"
    by blast
  from Cons.IH [OF r1(1)] r1(2) show ?case
    by (simp add: run_def)
qed

text \<open>
  Claim C2. Messages delivered on one topic: when the topic has no renderable, the first
  message creates one, with a fresh reference, and adds it once to the extension; every
  later message finds that renderable and mutates it, so after any further sequence of
  messages the renderable of the topic still has the same reference and the extension
  has gained exactly that one object. When the topic already has a renderable, no
  sequence of messages replaces it or adds an object. The renderables of the other
  topics are untouched. More generally, no sequence of messages on any topics and of
  settings edits replaces the renderable a topic has.
\<close>
theorem one_renderable_per_topic:
  "(renderables st tp = None \<longrightarrow>
      (\<exists>r1 rn. renderables (deliver tp st m) tp = Some r1 \<and>
         ref r1 = Suc (next_ref st) \<and>
         children (deliver tp st m) = children st @ [ref r1] \<and>
         renderables (foldl (deliver tp) (deliver tp st m) ms) tp = Some rn \<and>
         ref rn = ref r1 \<and>
         children (foldl (deliver tp) (deliver tp st m) ms) = children st @ [ref r1])) \<and>
   (\<forall>r. renderables st tp = Some r \<longrightarrow>
      (\<exists>rn. renderables (foldl (deliver tp) st ms) tp = Some rn \<and> ref rn = ref r \<and>
         children (foldl (deliver tp) st ms) = children st)) \<and>
   (\<forall>t'. t' \<noteq> tp \<longrightarrow> renderables (foldl (deliver tp) st (m # ms)) t' = renderables st t') \<and>
   (\<forall>r. renderables st tp = Some r \<longrightarrow>
      (\<exists>rn. renderables (run st evs) tp = Some rn \<and> ref rn = ref r))"
proof (intro conjI impI allI)
  assume none: "renderables st tp = None"
  from addPose_new [OF none, of "fst m" "snd m"]
  obtain r1 where r1: "renderables (deliver tp st m) tp = Some r1"
    "children (deliver tp st m) = children st @ [ref r1]" "ref r1 = Suc (next_ref st)"
    by (auto simp: deliver_def)
  from deliver_all_existing [OF r1(1), of ms] r1
  show "\<exists>r1 rn. renderables (deliver tp st m) tp = Some r1 \<and>
         ref r1 = Suc (next_ref st) \<and>
         children (deliver tp st m) = children st @ [ref r1] \<and>
         renderables (foldl (deliver tp) (deliver tp st m) ms) tp = Some rn \<and>
         ref rn = ref r1 \<and>
         children (foldl (deliver tp) (deliver tp st m) ms) = children st @ [ref r1]"
    by auto
next
  fix r assume "renderables st tp = Some r"
  from deliver_all_existing [OF this, of ms]
  show "\<exists>rn. renderables (foldl (deliver tp) st ms) tp = Some rn \<and> ref rn = ref r \<and>
         children (foldl (deliver tp) st ms) = children st"
    by auto
next
  fix t' assume ne: "t' \<noteq> tp"
  have "renderables (foldl (deliver tp) s xs) t' = renderables s t'" for s xs
    using ne by (induction xs arbitrary: s) (simp_all add: deliver_def addPose_other)
  then show "renderables (foldl (deliver tp) st (m # ms)) t' = renderables st t'" .
next
  fix r assume "renderables st tp = Some r"
  then show "\<exists>rn. renderables (run st evs) tp = Some rn \<and> ref rn = ref r"
    by (rule run_keeps_ref)
qed

theorem one_renderable_per_topic_witness:
  "\<exists>r1 rn.
     renderables (deliver ''/pose'' (Poses_new Map.empty)
        (PoseStamped \<lparr>frame_id = ''map'', stamp = TIME_ZERO\<rparr> makePose, 7)) ''/pose'' = Some r1 \<and>
     ref r1 = 1 \<and>
     renderables (foldl (deliver ''/pose'')
        (deliver ''/pose'' (Poses_new Map.empty)
           (PoseStamped \<lparr>frame_id = ''map'', stamp = TIME_ZERO\<rparr> makePose, 7))
        [(PoseStamped \<lparr>frame_id = ''odom'', stamp = TIME_ZERO\<rparr> makePose, 8),
         (PoseStamped \<lparr>frame_id = ''base'', stamp = TIME_ZERO\<rparr> makePose, 9)]) ''/pose'' = Some rn \<and>
     ref rn = 1 \<and>
     children (foldl (deliver ''/pose'')
        (deliver ''/pose'' (Poses_new Map.empty)
           (PoseStamped \<lparr>frame_id = ''map'', stamp = TIME_ZERO\<rparr> makePose, 7))
        [(PoseStamped \<lparr>frame_id = ''odom'', stamp = TIME_ZERO\<rparr> makePose, 8),
         (PoseStamped \<lparr>frame_id = ''base'', stamp = TIME_ZERO\<rparr> makePose, 9)]) = [1]"
  using one_renderable_per_topic [where st = "Poses_new Map.empty" and tp = "''/pose''"
      and m = "(PoseStamped \<lparr>frame_id = ''map'', stamp = TIME_ZERO\<rparr> makePose, 7)"
      and ms = "[(PoseStamped \<lparr>frame_id = ''odom'', stamp = TIME_ZERO\<rparr> makePose, 8),
         (PoseStamped \<lparr>frame_id = ''base'', stamp = TIME_ZERO\<rparr> makePose, 9)]"
      and evs = "[]"]
  by (auto simp: Poses_new_def)

subsection \<open>Switching the covariance off and on\<close>








subsection \<open>Merging settings\<close>

text \<open>
  Claim C4. Spreading \<open>override1\<close> and then \<open>override2\<close> over the defaults gives the
  single merge of the defaults with both overrides; every field of the effective
  settings is the override's value when the override sets the field and the default
  otherwise. In the extension: the renderable created for a new topic gets the default
  settings overridden by the persisted settings of the topic, and after an edit of one
  of the topic's fields its settings are the single merge of the defaults, the settings
  persisted before and the settings persisted after the edit.
\<close>
theorem settings_merge_sequential:
  "spread (spread defaults override1) override2 = single_merge defaults override1 override2 \<and>
   visible (spread defaults override1) =
     (case visible_opt override1 of None \<Rightarrow> visible defaults | Some v \<Rightarrow> v) \<and>
   scale (spread defaults override1) =
     (case scale_opt override1 of None \<Rightarrow> scale defaults | Some v \<Rightarrow> v) \<and>
   color (spread defaults override1) =
     (case color_opt override1 of None \<Rightarrow> color defaults | Some v \<Rightarrow> v) \<and>
   showCovariance (spread defaults override1) =
     (case showCovariance_opt override1 of None \<Rightarrow> showCovariance defaults | Some v \<Rightarrow> v) \<and>
   covarianceColor (spread defaults override1) =
     (case covarianceColor_opt override1 of None \<Rightarrow> covarianceColor defaults | Some v \<Rightarrow> v) \<and>
   (renderables st tp = None \<longrightarrow>
      (\<exists>r1 r2.
         renderables (addPose st tp msg rt) tp = Some r1 \<and>
         settings r1 = spread DEFAULT_SETTINGS (config_topics (config st) tp) \<and>
         renderables (handleSettingsAction (addPose st tp msg rt)
                        \<lparr>action = ''update'', payload_path = [''topics'', tp, field],
                         payload_value = v\<rparr>) tp = Some r2 \<and>
         settings r2 =
           single_merge DEFAULT_SETTINGS (config_topics (config st) tp)
             (config_topics ((config st)([''topics'', tp, field] \<mapsto> v)) tp)))"
proof -
  let ?a = "\<lparr>action = ''update'', payload_path = [''topics'', tp, field], payload_value = v\<rparr>"
  have prog: "\<exists>r1 r2.
         renderables (addPose st tp msg rt) tp = Some r1 \<and>
         settings r1 = spread DEFAULT_SETTINGS (config_topics (config st) tp) \<and>
         renderables (handleSettingsAction (addPose st tp msg rt) ?a) tp = Some r2 \<and>
         settings r2 =
           single_merge DEFAULT_SETTINGS (config_topics (config st) tp)
             (config_topics ((config st)([''topics'', tp, field] \<mapsto> v)) tp)"
    if none: "renderables st tp = None"
  proof -
    from addPose_new_settings [OF none, of msg rt] obtain r1 where
      r1: "renderables (addPose st tp msg rt) tp = Some r1"
        "settings r1 = spread DEFAULT_SETTINGS (config_topics (config st) tp)"
      by blast
    have a: "action ?a = ''update''" "payload_path ?a = [''topics'', tp, field]"
      by simp_all
    from handleSettingsAction_existing [OF a r1(1)]
    obtain r2 where r2: "renderables (handleSettingsAction (addPose st tp msg rt) ?a) tp = Some r2"
      "settings r2 = spread (settings r1) (config_topics ((config st)([''topics'', tp, field] \<mapsto> v)) tp)"
      by auto
    from r1 r2 show ?thesis
      by (simp add: single_merge_def spread_spread)
  qed
  have merge: "spread (spread defaults override1) override2 = single_merge defaults override1 override2"
    by (simp add: single_merge_def spread_spread)
  have fields:
    "visible (spread defaults override1) =
       (case visible_opt override1 of None \<Rightarrow> visible defaults | Some v \<Rightarrow> v)"
    "scale (spread defaults override1) =
       (case scale_opt override1 of None \<Rightarrow> scale defaults | Some v \<Rightarrow> v)"
    "color (spread defaults override1) =
       (case color_opt override1 of None \<Rightarrow> color defaults | Some v \<Rightarrow> v)"
    "showCovariance (spread defaults override1) =
       (case showCovariance_opt override1 of None \<Rightarrow> showCovariance defaults | Some v \<Rightarrow> v)"
    "covarianceColor (spread defaults override1) =
       (case covarianceColor_opt override1 of None \<Rightarrow> covarianceColor defaults | Some v \<Rightarrow> v)"
    by (simp_all add: spread_def)
  from merge fields prog show ?thesis
    by (intro conjI impI) assumption+
qed

theorem settings_merge_sequential_witness:
  "spread (spread DEFAULT_SETTINGS
        \<lparr>visible_opt = None, scale_opt = None, color_opt = Some (Str ''#ff0000''),
         showCovariance_opt = Some False, covarianceColor_opt = None\<rparr>)
        \<lparr>visible_opt = None, scale_opt = None, color_opt = Some (Str ''#00ff00''),
         showCovariance_opt = None, covarianceColor_opt = None\<rparr>
     = \<lparr>visible = True, scale = DEFAULT_SCALE, color = Str ''#00ff00'',
        showCovariance = False, covarianceColor = DEFAULT_COVARIANCE_COLOR_STR\<rparr> \<and>
   (\<exists>r2. renderables (handleSettingsAction
                (addPose (Poses_new Map.empty) ''/pose'' (PoseStamped \<lparr>frame_id = ''map'', stamp = TIME_ZERO\<rparr> makePose) 7)
                \<lparr>action = ''update'', payload_path = [''topics'', ''/pose'', ''color''],
                 payload_value = StringValue ''#00ff00''\<rparr>) ''/pose'' = Some r2 \<and>
          color (settings r2) = Str ''#00ff00'' \<and> visible (settings r2) = True)"
  using settings_merge_sequential [of DEFAULT_SETTINGS
        "\<lparr>visible_opt = None, scale_opt = None, color_opt = Some (Str ''#ff0000''),
         showCovariance_opt = Some False, covarianceColor_opt = None\<rparr>"
        "\<lparr>visible_opt = None, scale_opt = None, color_opt = Some (Str ''#00ff00''),
         showCovariance_opt = None, covarianceColor_opt = None\<rparr>"
        "Poses_new Map.empty" "''/pose''" "PoseStamped \<lparr>frame_id = ''map'', stamp = TIME_ZERO\<rparr> makePose" 7
        "''color''" "StringValue ''#00ff00''"] 
  by (auto simp: single_merge_def spread_partial_def spread_def DEFAULT_SETTINGS_def Poses_new_def config_topics_def)

subsection \<open>Settings edits\<close>

text \<open>
  Claim C6 as worded fails. The update with the path \<open>["layers", "/pose", "color"]\<close> has
  three segments but not the expected first one; the handler persists it.
\<close>
theorem invalid_path_persisted:
  "config (handleSettingsAction (Poses_new Map.empty)
       \<lparr>action = ''update'', payload_path = [''layers'', ''/pose'', ''color''],
        payload_value = StringValue ''#ff0000''\<rparr>) [''layers'', ''/pose'', ''color'']
     = Some (StringValue ''#ff0000'') \<and>
   config (Poses_new Map.empty) [''layers'', ''/pose'', ''color''] = None"
  by (simp add: handleSettingsAction_def saveSetting_def Poses_new_def Let_def)

text \<open>
  Claim C6, amended. An action that is not an update, or whose path does not have
  exactly three segments, changes nothing: the state of the extension, its persisted
  configuration included, is the same afterwards. An update with a path of three
  segments is persisted under that path; the handler does not look at what the segments
  are.
\<close>
theorem settings_action_ignored:
  "(action a \<noteq> ''update'' \<or> length (payload_path a) \<noteq> 3 \<longrightarrow> handleSettingsAction st a = st) \<and>
   (action a = ''update'' \<and> length (payload_path a) = 3 \<longrightarrow>
      config (handleSettingsAction st a) (payload_path a) = Some (payload_value a))"
  using handleSettingsAction_config [of a st]
  by (auto simp: handleSettingsAction_def Let_def)

theorem settings_action_ignored_witness:
  "handleSettingsAction (Poses_new Map.empty)
       \<lparr>action = ''update'', payload_path = [''topics'', ''/pose''], payload_value = BoolValue False\<rparr>
     = Poses_new Map.empty \<and>
   config (handleSettingsAction (Poses_new Map.empty)
       \<lparr>action = ''update'', payload_path = [''topics'', ''/pose'', ''visible''],
        payload_value = BoolValue False\<rparr>) [''topics'', ''/pose'', ''visible'']
     = Some (BoolValue False)"
  using settings_action_ignored [of "\<lparr>action = ''update'', payload_path = [''topics'', ''/pose''], payload_value = BoolValue False\<rparr>" "Poses_new Map.empty"]
    settings_action_ignored [of "\<lparr>action = ''update'', payload_path = [''topics'', ''/pose'', ''visible''], payload_value = BoolValue False\<rparr>" "Poses_new Map.empty"]
  by simp



subsection \<open>Normalisation of partial messages\<close>

text \<open>
  Claim C8. \<open>normalizePoseWithCovarianceStamped\<close> returns a complete message for every
  partial message. A missing header becomes the empty frame id with the zero time; a
  missing frame id, time, seconds or nanoseconds becomes its zero; a missing pose
  becomes the zero position with the orientation \<open>(0, 0, 0, 1)\<close>, component by component;
  a missing covariance becomes 36 zeros; every field that is present is kept.
\<close>
theorem normalization_fills_defaults:
  "\<exists>h p.
     normalizePoseWithCovarianceStamped m = PoseWithCovarianceStamped h p \<and>
     (pwcs_header_opt m = None \<longrightarrow> h = \<lparr>frame_id = [], stamp = TIME_ZERO\<rparr>) \<and>
     (\<forall>ph. pwcs_header_opt m = Some ph \<longrightarrow>
        frame_id h = (case frame_id_opt ph of None \<Rightarrow> [] | Some f \<Rightarrow> f) \<and>
        (stamp_opt ph = None \<longrightarrow> stamp h = TIME_ZERO) \<and>
        (\<forall>t. stamp_opt ph = Some t \<longrightarrow>
           sec (stamp h) = (case sec_opt t of None \<Rightarrow> 0 | Some v \<Rightarrow> v) \<and>
           nsec (stamp h) = (case nsec_opt t of None \<Rightarrow> 0 | Some v \<Rightarrow> v))) \<and>
     (pwcs_pose_opt m = None \<longrightarrow> p = PoseWithCovariance makePose (replicate 36 (Num 0))) \<and>
     (\<forall>pp. pwcs_pose_opt m = Some pp \<longrightarrow>
        (covariance_opt pp = None \<longrightarrow>
           covariance p = replicate 36 (Num 0) \<and> length (covariance p) = 36) \<and>
        (\<forall>K. covariance_opt pp = Some K \<longrightarrow> covariance p = K) \<and>
        (pwc_pose_opt pp = None \<longrightarrow> pwc_pose p = makePose) \<and>
        (\<forall>q. pwc_pose_opt pp = Some q \<longrightarrow>
           (position_opt q = None \<longrightarrow> position (pwc_pose p) = (Num 0, Num 0, Num 0)) \<and>
           (orientation_opt q = None \<longrightarrow> orientation (pwc_pose p) = (Num 0, Num 0, Num 0, Num 1)) \<and>
           (\<forall>a b c. position_opt q = Some (a, b, c) \<longrightarrow>
              position (pwc_pose p) =
                (or_default a (Num 0), or_default b (Num 0), or_default c (Num 0))) \<and>
           (\<forall>a b c d. orientation_opt q = Some (a, b, c, d) \<longrightarrow>
              orientation (pwc_pose p) =
                (or_default a (Num 0), or_default b (Num 0), or_default c (Num 0),
                 or_default d (Num 1)))))"
  by (simp add: normalizePoseWithCovarianceStamped_def normalizePoseWithCovariance_def
      normalizeHeader_def normalizeTime_def normalizePose_def normalizeMatrix6_def
      normalizeVector3_def normalizeQuaternion_def makePose_def TIME_ZERO_def)

theorem normalization_fills_defaults_witness:
  "normalizePoseWithCovarianceStamped \<lparr>pwcs_header_opt = None, pwcs_pose_opt = None\<rparr> =
     PoseWithCovarianceStamped \<lparr>frame_id = [], stamp = TIME_ZERO\<rparr>
       (PoseWithCovariance makePose (replicate 36 (Num 0))) \<and>
   covariance (pwcs_pose (normalizePoseWithCovarianceStamped
       \<lparr>pwcs_header_opt = Some \<lparr>frame_id_opt = Some ''map'', stamp_opt = None\<rparr>,
        pwcs_pose_opt = Some \<lparr>pwc_pose_opt = None, covariance_opt = None\<rparr>\<rparr>)) =
     replicate 36 (Num 0)"
  using normalization_fills_defaults [of "\<lparr>pwcs_header_opt = None, pwcs_pose_opt = None\<rparr>"]
    normalization_fills_defaults [of
       "\<lparr>pwcs_header_opt = Some \<lparr>frame_id_opt = Some ''map'', stamp_opt = None\<rparr>,
        pwcs_pose_opt = Some \<lparr>pwc_pose_opt = None, covariance_opt = None\<rparr>\<rparr>"]
  by auto

section \<open>Properties of the diagnostics summary\<close>








section \<open>Properties of the chart manager\<close>







text \<open>
  Claim C10. \<open>getDatalabelAtEvent\<close> leaves no stored click context behind. So a call
  that follows another call, with an event for which the datalabels plugin reports no
  click, returns \<open>undefined\<close>. A call whose event the plugin reports as a click on a
  label, while the click listener is installed, returns the datum of that label.
\<close>
theorem datalabel_context_consumed:
  "lastDatalabelClickContext (fst (getDatalabelAtEvent lib m ev1)) = None \<and>
   (snd (notifyPlugins_beforeEvent lib ev2 (chartInstance (fst (getDatalabelAtEvent lib m ev1)))) = None \<longrightarrow>
      snd (getDatalabelAtEvent lib (fst (getDatalabelAtEvent lib m ev1)) ev2) = None) \<and>
   (\<forall>c d. snd (notifyPlugins_beforeEvent lib ev1 (chartInstance m)) = Some c \<and>
          plugins_datalabels (chart_options (chartInstance m)) = Some d \<and> listeners_click d \<longrightarrow>
      snd (getDatalabelAtEvent lib m ev1) = at_index (dataset_data c) (dataIndex c))"
  by (auto simp: getDatalabelAtEvent_def Let_def split: option.splits)

theorem datalabel_context_consumed_witness:
  "snd (getDatalabelAtEvent example_library example_manager (example_event (Num 1))) =
     Some (PointDatum (Num 1) (Num 2) (Some ''a'')) \<and>
   snd (getDatalabelAtEvent example_library
          (fst (getDatalabelAtEvent example_library example_manager (example_event (Num 1))))
          (example_event (Num 0))) = None"
  using datalabel_context_consumed [of example_library example_manager "example_event (Num 1)" "example_event (Num 0)"]
  by (simp add: getDatalabelAtEvent_def example_library_def example_manager_def example_event_def
      new_ChartJSManager_def addFunctionsToConfig_def at_index_def Let_def)

end
